theory Spec2Isabelle
  imports Complex_Main "HOL-Library.List_Lexorder" "HOL-Library.Char_ord"
begin

section \<open>Values\<close>

text \<open>
  The records handled by the two scripts are Python dictionaries decoded from JSON:
  a value is \<open>None\<close>, a \<open>bool\<close>, an \<open>int\<close>, a \<open>float\<close>, a \<open>str\<close>, a \<open>list\<close> or a
  \<open>dict\<close> with string keys.

  A Python \<open>float\<close> is kept abstract. The profilers observe two things of it only:
  its truth value (\<open>x != 0.0\<close>) and its rendering \<open>str(x)\<close>; the model carries both.

  A \<open>str\<close> is a \<open>string\<close>, one \<open>char\<close> for each code point (so the model covers
  code points below 256); \<open>len\<close> and slicing count code points, and the order on
  strings is the lexicographic order on code points, as Python's.
\<close>

datatype pyfloat = PyFloat (float_nonzero: bool) (float_str: string)

datatype scalar =
    SNone
  | SBool bool
  | SInt int
  | SFloat pyfloat
  | SStr string

text \<open>
  A \<open>dict\<close> is an association list in insertion order, which is the order of
  \<open>items()\<close>; a well-formed one has distinct keys.
\<close>

datatype pyval =
    Scalar scalar
  | PList "pyval list"
  | PDict "(string \<times> pyval) list"

type_synonym pydict = "(string \<times> pyval) list"

datatype py_error = TypeError | AttributeError | KeyError | IndexError | ZeroDivisionError

subsection \<open>Built-ins of Python used by the profilers\<close>

text \<open>\<open>d.get(k)\<close>: the value stored under \<open>k\<close>, and \<open>None\<close> when the key is missing.\<close>

definition dict_get :: "pydict \<Rightarrow> string \<Rightarrow> pyval" where
  "dict_get d k = (case map_of d k of None \<Rightarrow> Scalar SNone | Some v \<Rightarrow> v)"

text \<open>\<open>d.keys()\<close>\<close>

definition dict_keys :: "pydict \<Rightarrow> string list" where
  "dict_keys d = map fst d"

text \<open>\<open>type(v).__name__\<close>\<close>

fun type_name :: "pyval \<Rightarrow> string" where
  "type_name (Scalar SNone) = ''NoneType''"
| "type_name (Scalar (SBool b)) = ''bool''"
| "type_name (Scalar (SInt i)) = ''int''"
| "type_name (Scalar (SFloat x)) = ''float''"
| "type_name (Scalar (SStr s)) = ''str''"
| "type_name (PList xs) = ''list''"
| "type_name (PDict kvs) = ''dict''"

text \<open>Truth value testing, \<open>bool(v)\<close>, as \<open>if v\<close> applies it.\<close>

fun truthy :: "pyval \<Rightarrow> bool" where
  "truthy (Scalar SNone) = False"
| "truthy (Scalar (SBool b)) = b"
| "truthy (Scalar (SInt i)) = (i \<noteq> 0)"
| "truthy (Scalar (SFloat x)) = float_nonzero x"
| "truthy (Scalar (SStr s)) = (s \<noteq> [])"
| "truthy (PList xs) = (xs \<noteq> [])"
| "truthy (PDict kvs) = (kvs \<noteq> [])"

text \<open>\<open>len(v)\<close>: defined on strings, lists and dicts; a \<open>TypeError\<close> on the rest.\<close>

fun py_len :: "pyval \<Rightarrow> py_error + nat" where
  "py_len (Scalar (SStr s)) = Inr (length s)"
| "py_len (PList xs) = Inr (length xs)"
| "py_len (PDict kvs) = Inr (length kvs)"
| "py_len (Scalar s) = Inl TypeError"

text \<open>
  \<open>v[0]\<close>: the first element of a list, the first character of a string (an
  \<open>IndexError\<close> when there is none), the value under the key \<open>0\<close> of a dict (a
  \<open>KeyError\<close>, the keys being strings), and a \<open>TypeError\<close> on the rest.
\<close>

fun py_index0 :: "pyval \<Rightarrow> py_error + pyval" where
  "py_index0 (PList (x # xs)) = Inr x"
| "py_index0 (PList []) = Inl IndexError"
| "py_index0 (Scalar (SStr (c # s))) = Inr (Scalar (SStr [c]))"
| "py_index0 (Scalar (SStr [])) = Inl IndexError"
| "py_index0 (PDict kvs) = Inl KeyError"
| "py_index0 (Scalar s) = Inl TypeError"

text \<open>Decimal rendering of integers, \<open>str(n)\<close>.\<close>

definition digit_char :: "nat \<Rightarrow> char" where
  "digit_char d = ''0123456789'' ! d"

fun str_nat :: "nat \<Rightarrow> string" where
  "str_nat n = (if n < 10 then [digit_char n] else str_nat (n div 10) @ [digit_char (n mod 10)])"

declare str_nat.simps [simp del]

definition str_int :: "int \<Rightarrow> string" where
  "str_int i = (if i < 0 then CHR ''-'' # str_nat (nat (- i)) else str_nat (nat i))"

text \<open>
  \<open>str(v)\<close> on the values that are not containers. The scripts never render a list or
  a dict with \<open>str\<close>.
\<close>

fun py_str :: "scalar \<Rightarrow> string" where
  "py_str SNone = ''None''"
| "py_str (SBool b) = (if b then ''True'' else ''False'')"
| "py_str (SInt i) = str_int i"
| "py_str (SFloat x) = float_str x"
| "py_str (SStr s) = s"

section \<open>The column profiler of \<open>analyze_clinical_trials.py\<close>\<close>

text \<open>
  One entry of the dictionary returned by \<open>analyze_column_population\<close>. The entry
  \<open>'percentage'\<close> is a float in the source; the model keeps the exact quotient. The
  entry \<open>'type'\<close> joins the set \<open>data_types\<close> in the iteration order of a Python set,
  which the program does not determine: the model keeps the set, and the empty set
  stands for \<open>'unknown'\<close>.
\<close>

record column_stat =
  populated :: nat
  total :: nat
  percentage :: rat
  data_types :: "string set"
  sample_values :: "string list"

text \<open>The three accumulators of the inner loop.\<close>

record scan_state =
  sc_populated :: nat
  sc_samples :: "string list"
  sc_types :: "string set"

text \<open>The text appended to \<open>sample_values\<close> for a populated value.\<close>

fun sample_text :: "pyval \<Rightarrow> string" where
  "sample_text (Scalar s) =
     (if length (py_str s) > 50 then take 50 (py_str s) @ ''...'' else py_str s)"
| "sample_text (PList xs) = type_name (PList xs) @ '' with '' @ str_nat (length xs) @ '' items''"
| "sample_text (PDict kvs) = type_name (PDict kvs) @ '' with '' @ str_nat (length kvs) @ '' items''"

text \<open>
  The body of \<open>for record in records\<close>. The test is
  \<open>value is not None and value != '' and value != []\<close>; on the values of the model,
  Python's \<open>!=\<close> against \<open>''\<close> and against \<open>[]\<close> is inequality of values.
\<close>

definition scan_step :: "string \<Rightarrow> pydict \<Rightarrow> scan_state \<Rightarrow> scan_state" where
  "scan_step col record st =
     (let v = dict_get record col in
      if v \<noteq> Scalar SNone \<and> v \<noteq> Scalar (SStr []) \<and> v \<noteq> PList [] then
        \<lparr> sc_populated = sc_populated st + 1,
          sc_samples = (if length (sc_samples st) < 3 then sc_samples st @ [sample_text v]
                        else sc_samples st),
          sc_types = insert (type_name v) (sc_types st) \<rparr>
      else st)"

fun scan_column :: "string \<Rightarrow> pydict list \<Rightarrow> scan_state \<Rightarrow> scan_state" where
  "scan_column col [] st = st"
| "scan_column col (r # rs) st = scan_column col rs (scan_step col r st)"

text \<open>\<open>populated / len(records)\<close> raises on an empty list.\<close>

definition py_truediv :: "nat \<Rightarrow> nat \<Rightarrow> py_error + rat" where
  "py_truediv a b = (if b = 0 then Inl ZeroDivisionError else Inr (of_nat a / of_nat b))"

definition column_entry :: "pydict list \<Rightarrow> string \<Rightarrow> py_error + column_stat" where
  "column_entry records col =
     (let st = scan_column col records \<lparr> sc_populated = 0, sc_samples = [], sc_types = {} \<rparr> in
      case py_truediv (sc_populated st) (length records) of
        Inl e \<Rightarrow> Inl e
      | Inr q \<Rightarrow> Inr \<lparr> populated = sc_populated st, total = length records,
                      percentage = q * 100, data_types = sc_types st,
                      sample_values = sc_samples st \<rparr>)"

text \<open>\<open>column_stats[col] = ...\<close>: a new key goes last, a known key keeps its place.\<close>

fun dict_set :: "string \<Rightarrow> 'v \<Rightarrow> (string \<times> 'v) list \<Rightarrow> (string \<times> 'v) list" where
  "dict_set k v [] = [(k, v)]"
| "dict_set k v ((k', v') # d) = (if k = k' then (k, v) # d else (k', v') # dict_set k v d)"

text \<open>The loop \<open>for col in sorted(all_columns)\<close>.\<close>

fun fill_stats ::
  "pydict list \<Rightarrow> string list \<Rightarrow> (string \<times> column_stat) list \<Rightarrow>
   py_error + (string \<times> column_stat) list" where
  "fill_stats records [] column_stats = Inr column_stats"
| "fill_stats records (col # cols) column_stats =
     (case column_entry records col of
        Inl e \<Rightarrow> Inl e
      | Inr entry \<Rightarrow> fill_stats records cols (dict_set col entry column_stats))"

text \<open>The loop \<open>for record in records: all_columns.update(record.keys())\<close>.\<close>

fun all_columns :: "pydict list \<Rightarrow> string set \<Rightarrow> string set" where
  "all_columns [] acc = acc"
| "all_columns (r # rs) acc = all_columns rs (acc \<union> set (dict_keys r))"

definition analyze_column_population ::
  "pydict list \<Rightarrow> py_error + (string \<times> column_stat) list" where
  "analyze_column_population records =
     (if records = [] then Inr []
      else fill_stats records (sorted_list_of_set (all_columns records {})) [])"

section \<open>The nested-field profiler of \<open>analyze_clinical_trials.py\<close>\<close>

text \<open>
  \<open>analyze_jsonb_field\<close> returns nothing and prints. The model returns what it has
  printed, one \<open>line\<close> for each call of \<open>print\<close> with the values interpolated in
  it, and the exception that ended it, if any.
\<close>

datatype line =
    NoPopulated string                  \<comment> \<open>\<open>No populated {field_name} fields found in sample\<close>\<close>
  | Found nat string                    \<comment> \<open>\<open>Found {len(field_values)} populated {field_name} fields\<close>\<close>
  | TypeArrayOfObjects                  \<comment> \<open>\<open>Type: Array of objects\<close>\<close>
  | ArrayLengths "nat list"             \<comment> \<open>\<open>Array lengths: {[...]}\<close>\<close>
  | SampleItemStructure                 \<comment> \<open>\<open>Sample item structure:\<close>\<close>
  | ItemField string string             \<comment> \<open>\<open>- {key}: {val_type}\<close>, array branch\<close>
  | TypeObject                          \<comment> \<open>\<open>Type: Object\<close>\<close>
  | KeysFound "string list"             \<comment> \<open>\<open>Keys found: {sorted(all_keys)}\<close>\<close>
  | SampleStructure                     \<comment> \<open>\<open>Sample structure:\<close>\<close>
  | FieldTypeValue string string string \<comment> \<open>\<open>- {key}: {val_type} = {str(val)[:50]}\<close>\<close>
  | FieldType string string             \<comment> \<open>\<open>- {key}: {val_type}\<close>, object branch\<close>

type_synonym printed = "line list \<times> py_error option"

text \<open>\<open>[r.get(field_name) for r in records if r.get(field_name)]\<close>\<close>

definition field_values :: "pydict list \<Rightarrow> string \<Rightarrow> pyval list" where
  "field_values records field_name =
     map (\<lambda>r. dict_get r field_name) (filter (\<lambda>r. truthy (dict_get r field_name)) records)"

text \<open>\<open>[len(v) for v in vs]\<close>: the first \<open>len\<close> that raises ends the comprehension.\<close>

fun array_lengths :: "pyval list \<Rightarrow> py_error + nat list" where
  "array_lengths [] = Inr []"
| "array_lengths (v # vs) =
     (case py_len v of
        Inl e \<Rightarrow> Inl e
      | Inr n \<Rightarrow> (case array_lengths vs of Inl e \<Rightarrow> Inl e | Inr ns \<Rightarrow> Inr (n # ns)))"

text \<open>\<open>v.items()\<close>: only a dict has the method.\<close>

fun py_items :: "pyval \<Rightarrow> py_error + pydict" where
  "py_items (PDict kvs) = Inr kvs"
| "py_items v = Inl AttributeError"

definition item_line :: "string \<times> pyval \<Rightarrow> line" where
  "item_line kv = ItemField (fst kv) (type_name (snd kv))"

text \<open>
  The loop \<open>for values in field_values\<close> of the array branch, which ends at the
  \<open>break\<close> of the first value that is truthy and of positive length.
\<close>

fun sample_item_loop :: "pyval list \<Rightarrow> printed" where
  "sample_item_loop [] = ([], None)"
| "sample_item_loop (values # rest) =
     (if \<not> truthy values then sample_item_loop rest
      else case py_len values of
        Inl e \<Rightarrow> ([], Some e)
      | Inr n \<Rightarrow>
          if n > 0 then
            (case py_index0 values of
               Inl e \<Rightarrow> ([SampleItemStructure], Some e)
             | Inr sample_item \<Rightarrow>
                 (case py_items sample_item of
                    Inl e \<Rightarrow> ([SampleItemStructure], Some e)
                  | Inr kvs \<Rightarrow> (SampleItemStructure # map item_line kvs, None)))
          else sample_item_loop rest)"

text \<open>The loop that collects \<open>all_keys\<close> in the object branch.\<close>

fun all_keys :: "pyval list \<Rightarrow> string set \<Rightarrow> string set" where
  "all_keys [] acc = acc"
| "all_keys (PDict kvs # vs) acc = all_keys vs (acc \<union> set (dict_keys kvs))"
| "all_keys (v # vs) acc = all_keys vs acc"

text \<open>\<open>isinstance(val, (str, int, float, bool))\<close>\<close>

fun is_str_int_float_bool :: "pyval \<Rightarrow> bool" where
  "is_str_int_float_bool (Scalar SNone) = False"
| "is_str_int_float_bool (Scalar s) = True"
| "is_str_int_float_bool v = False"

text \<open>The body of \<open>for key, val in sample.items()\<close> in the object branch.\<close>

fun sample_line :: "string \<times> pyval \<Rightarrow> line" where
  "sample_line (key, Scalar s) =
     (if is_str_int_float_bool (Scalar s)
      then FieldTypeValue key (type_name (Scalar s)) (take 50 (py_str s))
      else FieldType key (type_name (Scalar s)))"
| "sample_line (key, val) = FieldType key (type_name val)"

definition analyze_jsonb_field :: "pydict list \<Rightarrow> string \<Rightarrow> printed" where
  "analyze_jsonb_field records field_name =
     (let fv = field_values records field_name in
      case fv of
        [] \<Rightarrow> ([NoPopulated field_name], None)
      | first # others \<Rightarrow>
          (case first of
             PList xs \<Rightarrow>
               (case array_lengths (take 5 fv) of
                  Inl e \<Rightarrow> ([Found (length fv) field_name, TypeArrayOfObjects], Some e)
                | Inr ns \<Rightarrow>
                    ([Found (length fv) field_name, TypeArrayOfObjects, ArrayLengths ns]
                       @ fst (sample_item_loop fv),
                     snd (sample_item_loop fv)))
           | PDict kvs \<Rightarrow>
               ([Found (length fv) field_name, TypeObject,
                 KeysFound (sorted_list_of_set (all_keys fv {})), SampleStructure]
                  @ map sample_line kvs,
                None)
           | Scalar s \<Rightarrow> ([Found (length fv) field_name], None)))"

section \<open>The two profilers of \<open>analyze_clinical_trials_psycopg.py\<close>\<close>

text \<open>
  The second script defines \<open>analyze_column_population\<close> and \<open>analyze_jsonb_field\<close>
  again. They are translated on their own, from that file, with the suffix
  \<open>_psycopg\<close>; the values, the built-ins and the shapes of the results are shared.
\<close>

fun sample_text_psycopg :: "pyval \<Rightarrow> string" where
  "sample_text_psycopg (Scalar s) =
     (if length (py_str s) > 50 then take 50 (py_str s) @ ''...'' else py_str s)"
| "sample_text_psycopg (PList xs) =
     type_name (PList xs) @ '' with '' @ str_nat (length xs) @ '' items''"
| "sample_text_psycopg (PDict kvs) =
     type_name (PDict kvs) @ '' with '' @ str_nat (length kvs) @ '' items''"

definition scan_step_psycopg :: "string \<Rightarrow> pydict \<Rightarrow> scan_state \<Rightarrow> scan_state" where
  "scan_step_psycopg col record st =
     (let v = dict_get record col in
      if v \<noteq> Scalar SNone \<and> v \<noteq> Scalar (SStr []) \<and> v \<noteq> PList [] then
        \<lparr> sc_populated = sc_populated st + 1,
          sc_samples = (if length (sc_samples st) < 3
                        then sc_samples st @ [sample_text_psycopg v]
                        else sc_samples st),
          sc_types = insert (type_name v) (sc_types st) \<rparr>
      else st)"

fun scan_column_psycopg :: "string \<Rightarrow> pydict list \<Rightarrow> scan_state \<Rightarrow> scan_state" where
  "scan_column_psycopg col [] st = st"
| "scan_column_psycopg col (r # rs) st =
     scan_column_psycopg col rs (scan_step_psycopg col r st)"

definition column_entry_psycopg :: "pydict list \<Rightarrow> string \<Rightarrow> py_error + column_stat" where
  "column_entry_psycopg records col =
     (let st = scan_column_psycopg col records
                 \<lparr> sc_populated = 0, sc_samples = [], sc_types = {} \<rparr> in
      case py_truediv (sc_populated st) (length records) of
        Inl e \<Rightarrow> Inl e
      | Inr q \<Rightarrow> Inr \<lparr> populated = sc_populated st, total = length records,
                      percentage = q * 100, data_types = sc_types st,
                      sample_values = sc_samples st \<rparr>)"

fun fill_stats_psycopg ::
  "pydict list \<Rightarrow> string list \<Rightarrow> (string \<times> column_stat) list \<Rightarrow>
   py_error + (string \<times> column_stat) list" where
  "fill_stats_psycopg records [] column_stats = Inr column_stats"
| "fill_stats_psycopg records (col # cols) column_stats =
     (case column_entry_psycopg records col of
        Inl e \<Rightarrow> Inl e
      | Inr entry \<Rightarrow> fill_stats_psycopg records cols (dict_set col entry column_stats))"

fun all_columns_psycopg :: "pydict list \<Rightarrow> string set \<Rightarrow> string set" where
  "all_columns_psycopg [] acc = acc"
| "all_columns_psycopg (r # rs) acc = all_columns_psycopg rs (acc \<union> set (dict_keys r))"

definition analyze_column_population_psycopg ::
  "pydict list \<Rightarrow> py_error + (string \<times> column_stat) list" where
  "analyze_column_population_psycopg records =
     (if records = [] then Inr []
      else fill_stats_psycopg records
             (sorted_list_of_set (all_columns_psycopg records {})) [])"

definition field_values_psycopg :: "pydict list \<Rightarrow> string \<Rightarrow> pyval list" where
  "field_values_psycopg records field_name =
     map (\<lambda>r. dict_get r field_name) (filter (\<lambda>r. truthy (dict_get r field_name)) records)"

fun array_lengths_psycopg :: "pyval list \<Rightarrow> py_error + nat list" where
  "array_lengths_psycopg [] = Inr []"
| "array_lengths_psycopg (v # vs) =
     (case py_len v of
        Inl e \<Rightarrow> Inl e
      | Inr n \<Rightarrow>
          (case array_lengths_psycopg vs of Inl e \<Rightarrow> Inl e | Inr ns \<Rightarrow> Inr (n # ns)))"

definition item_line_psycopg :: "string \<times> pyval \<Rightarrow> line" where
  "item_line_psycopg kv = ItemField (fst kv) (type_name (snd kv))"

fun sample_item_loop_psycopg :: "pyval list \<Rightarrow> printed" where
  "sample_item_loop_psycopg [] = ([], None)"
| "sample_item_loop_psycopg (values # rest) =
     (if \<not> truthy values then sample_item_loop_psycopg rest
      else case py_len values of
        Inl e \<Rightarrow> ([], Some e)
      | Inr n \<Rightarrow>
          if n > 0 then
            (case py_index0 values of
               Inl e \<Rightarrow> ([SampleItemStructure], Some e)
             | Inr sample_item \<Rightarrow>
                 (case py_items sample_item of
                    Inl e \<Rightarrow> ([SampleItemStructure], Some e)
                  | Inr kvs \<Rightarrow> (SampleItemStructure # map item_line_psycopg kvs, None)))
          else sample_item_loop_psycopg rest)"

fun all_keys_psycopg :: "pyval list \<Rightarrow> string set \<Rightarrow> string set" where
  "all_keys_psycopg [] acc = acc"
| "all_keys_psycopg (PDict kvs # vs) acc = all_keys_psycopg vs (acc \<union> set (dict_keys kvs))"
| "all_keys_psycopg (v # vs) acc = all_keys_psycopg vs acc"

fun sample_line_psycopg :: "string \<times> pyval \<Rightarrow> line" where
  "sample_line_psycopg (key, Scalar s) =
     (if is_str_int_float_bool (Scalar s)
      then FieldTypeValue key (type_name (Scalar s)) (take 50 (py_str s))
      else FieldType key (type_name (Scalar s)))"
| "sample_line_psycopg (key, val) = FieldType key (type_name val)"

definition analyze_jsonb_field_psycopg :: "pydict list \<Rightarrow> string \<Rightarrow> printed" where
  "analyze_jsonb_field_psycopg records field_name =
     (let fv = field_values_psycopg records field_name in
      case fv of
        [] \<Rightarrow> ([NoPopulated field_name], None)
      | first # others \<Rightarrow>
          (case first of
             PList xs \<Rightarrow>
               (case array_lengths_psycopg (take 5 fv) of
                  Inl e \<Rightarrow> ([Found (length fv) field_name, TypeArrayOfObjects], Some e)
                | Inr ns \<Rightarrow>
                    ([Found (length fv) field_name, TypeArrayOfObjects, ArrayLengths ns]
                       @ fst (sample_item_loop_psycopg fv),
                     snd (sample_item_loop_psycopg fv)))
           | PDict kvs \<Rightarrow>
               ([Found (length fv) field_name, TypeObject,
                 KeysFound (sorted_list_of_set (all_keys_psycopg fv {})), SampleStructure]
                  @ map sample_line_psycopg kvs,
                None)
           | Scalar s \<Rightarrow> ([Found (length fv) field_name], None)))"

section \<open>Notions of the specification\<close>

text \<open>The column universe: the union of the keys of all the records.\<close>

definition column_universe :: "pydict list \<Rightarrow> string set" where
  "column_universe records = \<Union> (set (map (\<lambda>r. set (dict_keys r)) records))"

text \<open>
  A value counts as populated for a column when it is present, not null, not the
  empty string and not the empty array. The argument is the result of the lookup:
  \<open>None\<close> for a missing key.
\<close>

fun counted :: "pyval option \<Rightarrow> bool" where
  "counted None = False"
| "counted (Some (Scalar SNone)) = False"
| "counted (Some (Scalar (SStr s))) = (s \<noteq> [])"
| "counted (Some (PList xs)) = (xs \<noteq> [])"
| "counted (Some v) = True"

text \<open>The populated values of a column, in record order.\<close>

definition populated_values :: "string \<Rightarrow> pydict list \<Rightarrow> pyval list" where
  "populated_values col records =
     map (\<lambda>r. dict_get r col) (filter (\<lambda>r. counted (map_of r col)) records)"

text \<open>
  A value is in the populated set of the nested-field profiler when it is present and
  truthy: a non-empty string, array or object, a number other than zero, or \<open>True\<close>.
\<close>

fun included :: "pyval option \<Rightarrow> bool" where
  "included None = False"
| "included (Some (Scalar SNone)) = False"
| "included (Some (Scalar (SBool b))) = b"
| "included (Some (Scalar (SInt i))) = (i \<noteq> 0)"
| "included (Some (Scalar (SFloat x))) = float_nonzero x"
| "included (Some (Scalar (SStr s))) = (s \<noteq> [])"
| "included (Some (PList xs)) = (xs \<noteq> [])"
| "included (Some (PDict kvs)) = (kvs \<noteq> [])"

text \<open>The values that \<open>len\<close> accepts.\<close>

fun sized :: "pyval \<Rightarrow> bool" where
  "sized (Scalar (SStr s)) = True"
| "sized (PList xs) = True"
| "sized (PDict kvs) = True"
| "sized (Scalar s) = False"

fun is_list :: "pyval \<Rightarrow> bool" where
  "is_list (PList xs) = True"
| "is_list v = False"

text \<open>The keys of the objects among a list of values.\<close>

fun object_keys :: "pyval \<Rightarrow> string set" where
  "object_keys (PDict kvs) = set (dict_keys kvs)"
| "object_keys v = {}"

text \<open>
  The statistic of a column as the specification describes it: the number of populated
  values, the number of records, their ratio in percent, the type names of the
  populated values and the rendering of the first three of them.
\<close>

definition stat_of :: "pydict list \<Rightarrow> string \<Rightarrow> column_stat" where
  "stat_of records col =
     \<lparr> populated = length (populated_values col records),
       total = length records,
       percentage = of_nat (length (populated_values col records)) / of_nat (length records) * 100,
       data_types = type_name ` set (populated_values col records),
       sample_values = map sample_text (take 3 (populated_values col records)) \<rparr>"

section \<open>The loops of the column profiler\<close>


lemma counted_dict_get:
  "counted (map_of r col) \<longleftrightarrow>
     dict_get r col \<noteq> Scalar SNone \<and> dict_get r col \<noteq> Scalar (SStr []) \<and> dict_get r col \<noteq> PList []"
proof (cases "map_of r col")
  case None
  then show ?thesis by (simp add: dict_get_def)
next
  case (Some v)
  then show ?thesis by (cases "Some v" rule: counted.cases) (auto simp: dict_get_def)
qed

lemma scan_step_counted:
  "counted (map_of r col) \<Longrightarrow> scan_step col r st =
     \<lparr> sc_populated = sc_populated st + 1,
       sc_samples = (if length (sc_samples st) < 3
                     then sc_samples st @ [sample_text (dict_get r col)] else sc_samples st),
       sc_types = insert (type_name (dict_get r col)) (sc_types st) \<rparr>"
  by (simp add: scan_step_def Let_def counted_dict_get)

lemma scan_step_not_counted: "\<not> counted (map_of r col) \<Longrightarrow> scan_step col r st = st"
  by (auto simp: scan_step_def Let_def counted_dict_get)

lemma scan_column_populated:
  "sc_populated (scan_column col rs st) =
     sc_populated st + length (filter (\<lambda>r. counted (map_of r col)) rs)"
proof (induction rs arbitrary: st)
  case Nil
  show ?case by simp
next
  case (Cons r rs)
  show ?case
    by (cases "counted (map_of r col)")
       (simp_all add: Cons.IH scan_step_counted scan_step_not_counted)
qed

lemma scan_column_samples:
  "sc_samples (scan_column col rs st) =
     sc_samples st @ take (3 - length (sc_samples st)) (map sample_text (populated_values col rs))"
proof (induction rs arbitrary: st)
  case Nil
  show ?case by (simp add: populated_values_def)
next
  case (Cons r rs)
  show ?case
  proof (cases "counted (map_of r col)")
    case False
    then show ?thesis
      by (simp add: Cons.IH scan_step_not_counted populated_values_def)
  next
    case True
    show ?thesis
    proof (cases "length (sc_samples st) < 3")
      case short: True
      then have "3 - length (sc_samples st) = Suc (3 - (length (sc_samples st) + 1))"
        by arith
      with True short show ?thesis
        by (simp add: Cons.IH scan_step_counted populated_values_def)
    next
      case full: False
      with True show ?thesis
        by (simp add: Cons.IH scan_step_counted populated_values_def)
    qed
  qed
qed

lemma scan_column_types:
  "sc_types (scan_column col rs st) =
     sc_types st \<union> type_name ` set (populated_values col rs)"
proof (induction rs arbitrary: st)
  case Nil
  show ?case by (simp add: populated_values_def)
next
  case (Cons r rs)
  show ?case
    by (cases "counted (map_of r col)")
       (auto simp: Cons.IH scan_step_counted scan_step_not_counted populated_values_def)
qed

lemma all_columns_union: "all_columns rs acc = acc \<union> column_universe rs"
  by (induction rs arbitrary: acc) (auto simp: column_universe_def)

lemma dict_set_fresh: "k \<notin> fst ` set d \<Longrightarrow> dict_set k v d = d @ [(k, v)]"
  by (induction d) auto


lemma column_entry_eq:
  "records \<noteq> [] \<Longrightarrow> column_entry records col = Inr (stat_of records col)"
  by (simp add: column_entry_def Let_def py_truediv_def stat_of_def scan_column_populated
      scan_column_samples scan_column_types populated_values_def take_map)

lemma fill_stats_eq:
  "records \<noteq> [] \<Longrightarrow> distinct cols \<Longrightarrow> set cols \<inter> fst ` set acc = {} \<Longrightarrow>
   fill_stats records cols acc = Inr (acc @ map (\<lambda>c. (c, stat_of records c)) cols)"
proof (induction cols arbitrary: acc)
  case Nil
  show ?case by simp
next
  case (Cons c cols)
  from Cons.prems have fresh: "c \<notin> fst ` set acc" by auto
  have "set cols \<inter> fst ` set (acc @ [(c, stat_of records c)]) = {}"
    using Cons.prems by auto
  with Cons.prems Cons.IH [of "acc @ [(c, stat_of records c)]"] fresh show ?case
    by (simp add: column_entry_eq dict_set_fresh)
qed

lemma finite_column_universe: "finite (column_universe records)"
  by (simp add: column_universe_def)

lemma analyze_column_population_eq:
  "analyze_column_population records =
     Inr (map (\<lambda>c. (c, stat_of records c)) (sorted_list_of_set (column_universe records)))"
proof (cases "records = []")
  case True
  then show ?thesis by (simp add: analyze_column_population_def column_universe_def)
next
  case False
  then show ?thesis
    by (simp add: analyze_column_population_def all_columns_union fill_stats_eq)
qed

lemma map_of_tabulate:
  "map_of (map (\<lambda>c. (c, f c)) cols) col = (if col \<in> set cols then Some (f col) else None)"
  by (induction cols) auto

lemma stats_lookup:
  "col \<in> column_universe records \<Longrightarrow>
   map_of (map (\<lambda>c. (c, stat_of records c)) (sorted_list_of_set (column_universe records))) col
     = Some (stat_of records col)"
  by (simp add: map_of_tabulate finite_column_universe)

section \<open>The loops of the nested-field profiler\<close>

lemma truthy_dict_get: "truthy (dict_get r f) = included (map_of r f)"
proof (cases "map_of r f")
  case None
  then show ?thesis by (simp add: dict_get_def)
next
  case (Some v)
  then show ?thesis by (cases "Some v" rule: included.cases) (auto simp: dict_get_def)
qed

lemma field_values_included:
  "field_values records f =
     map (\<lambda>r. dict_get r f) (filter (\<lambda>r. included (map_of r f)) records)"
  by (simp add: field_values_def truthy_dict_get)

lemma field_values_truthy: "v \<in> set (field_values records f) \<Longrightarrow> truthy v"
  by (auto simp: field_values_def)

lemma all_keys_union: "all_keys vs acc = acc \<union> \<Union> (set (map object_keys vs))"
proof (induction vs arbitrary: acc)
  case Nil
  show ?case by simp
next
  case (Cons v vs)
  show ?case by (cases v) (auto simp: Cons.IH)
qed

lemma array_lengths_sized:
  "list_all sized vs \<Longrightarrow>
   \<exists>ns. array_lengths vs = Inr ns \<and> map py_len vs = map Inr ns \<and> length ns = length vs"
proof (induction vs)
  case Nil
  show ?case by simp
next
  case (Cons v vs)
  then obtain ns where ns: "array_lengths vs = Inr ns" "map py_len vs = map Inr ns"
      "length ns = length vs"
    by auto
  from Cons.prems have "sized v" by simp
  then obtain n where "py_len v = Inr n"
    by (cases v rule: sized.cases) auto
  with ns show ?case by simp
qed

lemma array_lengths_unsized:
  "\<not> list_all sized vs \<Longrightarrow> \<exists>e. array_lengths vs = Inl e"
proof (induction vs)
  case Nil
  then show ?case by simp
next
  case (Cons v vs)
  show ?case
  proof (cases "sized v")
    case True
    with Cons obtain e where "array_lengths vs = Inl e" by auto
    then show ?thesis by (simp split: sum.splits)
  next
    case False
    then have "py_len v = Inl TypeError"
      by (cases v rule: sized.cases) auto
    then show ?thesis by simp
  qed
qed

lemma sample_item_loop_object:
  "sample_item_loop (PList (PDict kvs # xs) # rest) =
     (SampleItemStructure # map item_line kvs, None)"
  by simp

lemma sample_item_loop_not_object:
  "\<not> (\<exists>kvs. x = PDict kvs) \<Longrightarrow>
   sample_item_loop (PList (x # xs) # rest) = ([SampleItemStructure], Some AttributeError)"
  by (cases x) auto

lemma analyze_jsonb_field_cases:
  "field_values records f = [] \<Longrightarrow> analyze_jsonb_field records f = ([NoPopulated f], None)"
  "field_values records f = Scalar s # rest \<Longrightarrow>
     analyze_jsonb_field records f = ([Found (Suc (length rest)) f], None)"
  "field_values records f = PDict kvs # rest \<Longrightarrow>
     analyze_jsonb_field records f =
       ([Found (Suc (length rest)) f, TypeObject,
         KeysFound (sorted_list_of_set (all_keys (PDict kvs # rest) {})), SampleStructure]
          @ map sample_line kvs, None)"
  "field_values records f = PList xs # rest \<Longrightarrow>
     analyze_jsonb_field records f =
       (case array_lengths (take 5 (PList xs # rest)) of
          Inl e \<Rightarrow> ([Found (Suc (length rest)) f, TypeArrayOfObjects], Some e)
        | Inr ns \<Rightarrow>
            ([Found (Suc (length rest)) f, TypeArrayOfObjects, ArrayLengths ns]
               @ fst (sample_item_loop (PList xs # rest)),
             snd (sample_item_loop (PList xs # rest))))"
  by (simp_all add: analyze_jsonb_field_def Let_def split: sum.splits)

lemma array_branch_outcome:
  assumes fv: "field_values records f = PList xs # rest"
  shows "snd (analyze_jsonb_field records f) = None \<longleftrightarrow>
           list_all sized (take 5 (field_values records f)) \<and> (\<exists>d ys. xs = PDict d # ys)"
proof (cases "list_all sized (take 5 (field_values records f))")
  case False
  from array_lengths_unsized [OF False] obtain e where
    "array_lengths (take 5 (field_values records f)) = Inl e" by blast
  with fv False show ?thesis
    by (simp add: analyze_jsonb_field_cases(4))
next
  case True
  from array_lengths_sized [OF True] obtain ns where
    "array_lengths (take 5 (field_values records f)) = Inr ns" by blast
  with fv have out: "snd (analyze_jsonb_field records f) = snd (sample_item_loop (PList xs # rest))"
    by (simp add: analyze_jsonb_field_cases(4))
  have "PList xs \<in> set (field_values records f)"
    by (simp add: fv)
  then have "truthy (PList xs)"
    by (rule field_values_truthy)
  then obtain x ys where xs: "xs = x # ys"
    by (cases xs) auto
  show ?thesis
  proof (cases "\<exists>d. x = PDict d")
    case obj: True
    with out xs True show ?thesis by auto
  next
    case other: False
    then have "sample_item_loop (PList (x # ys) # rest) =
                 ([SampleItemStructure], Some AttributeError)"
      by (rule sample_item_loop_not_object)
    with out xs have "snd (analyze_jsonb_field records f) = Some AttributeError"
      by (simp only: snd_conv)
    with other xs show ?thesis by auto
  qed
qed

section \<open>The column profiler: the claims\<close>

text \<open>
  Claim C1. For every record sequence and every column of the column universe,
  \<open>analyze_column_population\<close> counts a value as populated exactly when it is present,
  not null, not the empty string and not the empty array. So \<open>0\<close>, \<open>False\<close> and the
  empty object are counted; \<open>None\<close>, \<open>''\<close>, \<open>[]\<close> and a missing key are not.
\<close>

theorem populated_count:
  assumes "col \<in> column_universe records"
  shows "(\<exists>stats st. analyze_column_population records = Inr stats
           \<and> map_of stats col = Some st
           \<and> populated st = length (filter (\<lambda>r. counted (map_of r col)) records))
    \<and> counted (Some (Scalar (SInt 0)))
    \<and> counted (Some (Scalar (SBool False)))
    \<and> counted (Some (PDict []))
    \<and> \<not> counted None
    \<and> \<not> counted (Some (Scalar SNone))
    \<and> \<not> counted (Some (Scalar (SStr [])))
    \<and> \<not> counted (Some (PList []))"
proof -
  have "populated (stat_of records col) = length (filter (\<lambda>r. counted (map_of r col)) records)"
    by (simp add: stat_of_def populated_values_def)
  with assms show ?thesis
    by (simp add: analyze_column_population_eq stats_lookup)
qed

text \<open>
  Seven records: the column \<open>c\<close> holds \<open>0\<close>, \<open>False\<close>, \<open>{}\<close>, \<open>None\<close>, \<open>''\<close> and \<open>[]\<close>
  and is missing from the last one. Three values are counted.
\<close>

theorem populated_count_witness:
  "''c'' \<in> column_universe
      [[(''c'', Scalar (SInt 0))], [(''c'', Scalar (SBool False))], [(''c'', PDict [])],
       [(''c'', Scalar SNone)], [(''c'', Scalar (SStr []))], [(''c'', PList [])],
       [(''d'', Scalar (SInt 7))]]
   \<and> (\<exists>stats st. analyze_column_population
      [[(''c'', Scalar (SInt 0))], [(''c'', Scalar (SBool False))], [(''c'', PDict [])],
       [(''c'', Scalar SNone)], [(''c'', Scalar (SStr []))], [(''c'', PList [])],
       [(''d'', Scalar (SInt 7))]] = Inr stats
        \<and> map_of stats ''c'' = Some st \<and> populated st = 3)"
proof -
  let ?recs = "[[(''c'', Scalar (SInt 0))], [(''c'', Scalar (SBool False))], [(''c'', PDict [])],
       [(''c'', Scalar SNone)], [(''c'', Scalar (SStr []))], [(''c'', PList [])],
       [(''d'', Scalar (SInt 7))]]"
  have h: "''c'' \<in> column_universe ?recs"
    by (simp add: column_universe_def dict_keys_def)
  have n: "length (filter (\<lambda>r. counted (map_of r ''c'')) ?recs) = 3"
    by simp
  from populated_count [OF h] h show ?thesis
    unfolding n by blast
qed

text \<open>
  Claim C2. On the empty record sequence \<open>analyze_column_population\<close> returns the empty
  mapping, and no input makes it raise: the division by \<open>len(records)\<close> is only reached
  behind the guard \<open>if not records: return {}\<close>.
\<close>

theorem empty_records:
  "analyze_column_population [] = Inr [] \<and> analyze_column_population records \<noteq> Inl e"
  by (simp add: analyze_column_population_eq column_universe_def)

text \<open>
  Claim C4. The keys of the mapping returned by \<open>analyze_column_population\<close> are the
  union of the keys of all the records, each once, in increasing lexicographic order.
\<close>

theorem column_keys:
  "\<exists>stats. analyze_column_population records = Inr stats
     \<and> map fst stats = sorted_list_of_set (column_universe records)
     \<and> set (map fst stats) = column_universe records
     \<and> sorted (map fst stats) \<and> distinct (map fst stats)"
  by (simp add: analyze_column_population_eq comp_def finite_column_universe image_image)

text \<open>
  Claim C8. For every column, \<open>sample_values\<close> holds the renderings of the first
  \<open>min(3, populated)\<close> populated values in record order. A list or a dict is rendered as
  its type name, \<open>with\<close>, its length and \<open>items\<close>; any other value as its \<open>str\<close>, cut
  to 50 characters and followed by three dots when it is longer than 50 characters, and
  unchanged otherwise.
\<close>

theorem sample_values_first_three:
  assumes "col \<in> column_universe records"
  shows "(\<exists>stats st. analyze_column_population records = Inr stats
           \<and> map_of stats col = Some st
           \<and> sample_values st = map sample_text (take 3 (populated_values col records))
           \<and> length (sample_values st) = min 3 (populated st))
    \<and> sample_text (PList xs) = ''list with '' @ str_nat (length xs) @ '' items''
    \<and> sample_text (PDict kvs) = ''dict with '' @ str_nat (length kvs) @ '' items''
    \<and> sample_text (Scalar s) =
           (if length (py_str s) \<le> 50 then py_str s else take 50 (py_str s) @ ''...'')"
proof -
  have "sample_values (stat_of records col) = map sample_text (take 3 (populated_values col records))"
       "length (sample_values (stat_of records col)) = min 3 (populated (stat_of records col))"
    by (simp_all add: stat_of_def min_def)
  with assms show ?thesis
    by (auto simp: analyze_column_population_eq stats_lookup)
qed

text \<open>
  Five records with four populated values of the column \<open>t\<close>: a title of 60
  characters, a list, a short string and a number. The first three are sampled.
\<close>

theorem sample_values_first_three_witness:
  "''t'' \<in> column_universe
      [[(''t'', Scalar (SStr ''A Randomized Double-Blind Placebo-Controlled Study of Drug X''))],
       [(''t'', PList [Scalar (SInt 1), Scalar (SInt 2)])], [(''t'', Scalar (SStr []))],
       [(''t'', Scalar (SStr ''Aspirin''))], [(''t'', Scalar (SInt 9))]]
   \<and> (\<exists>stats st. analyze_column_population
      [[(''t'', Scalar (SStr ''A Randomized Double-Blind Placebo-Controlled Study of Drug X''))],
       [(''t'', PList [Scalar (SInt 1), Scalar (SInt 2)])], [(''t'', Scalar (SStr []))],
       [(''t'', Scalar (SStr ''Aspirin''))], [(''t'', Scalar (SInt 9))]] = Inr stats
        \<and> map_of stats ''t'' = Some st
        \<and> sample_values st = [''A Randomized Double-Blind Placebo-Controlled Study...'',
                               ''list with 2 items'', ''Aspirin''])"
proof -
  let ?recs = "[[(''t'', Scalar (SStr ''A Randomized Double-Blind Placebo-Controlled Study of Drug X''))],
       [(''t'', PList [Scalar (SInt 1), Scalar (SInt 2)])], [(''t'', Scalar (SStr []))],
       [(''t'', Scalar (SStr ''Aspirin''))], [(''t'', Scalar (SInt 9))]]"
  have h: "''t'' \<in> column_universe ?recs"
    by (simp add: column_universe_def dict_keys_def)
  have n: "map sample_text (take 3 (populated_values ''t'' ?recs))
             = [''A Randomized Double-Blind Placebo-Controlled Study...'',
                               ''list with 2 items'', ''Aspirin'']"
    by code_simp
  from sample_values_first_three [OF h] h show ?thesis
    unfolding n by blast
qed

section \<open>The nested-field profiler: the claims\<close>

text \<open>
  Claim C7. The populated set of \<open>analyze_jsonb_field\<close> holds the value of a record
  exactly when it is present and truthy: a non-empty string, array or object, a number
  other than zero, or \<open>True\<close>. The first line printed tells how many there are. Unlike
  the column profiler, which counts them, it leaves out the empty object, \<open>0\<close> and
  \<open>False\<close>.
\<close>

theorem populated_set_truthy:
  "field_values records f =
     map (\<lambda>r. dict_get r f) (filter (\<lambda>r. included (map_of r f)) records)
   \<and> (\<exists>more. fst (analyze_jsonb_field records f) =
         (if filter (\<lambda>r. included (map_of r f)) records = [] then NoPopulated f
          else Found (length (filter (\<lambda>r. included (map_of r f)) records)) f) # more)
   \<and> \<not> included None
   \<and> \<not> included (Some (Scalar SNone))
   \<and> \<not> included (Some (PDict []))
   \<and> \<not> included (Some (Scalar (SInt 0)))
   \<and> \<not> included (Some (Scalar (SBool False)))
   \<and> counted (Some (PDict []))
   \<and> counted (Some (Scalar (SInt 0)))
   \<and> counted (Some (Scalar (SBool False)))"
proof -
  let ?kept = "filter (\<lambda>r. included (map_of r f)) records"
  have fv: "field_values records f = map (\<lambda>r. dict_get r f) ?kept"
    by (rule field_values_included)
  have "\<exists>more. fst (analyze_jsonb_field records f) =
         (if ?kept = [] then NoPopulated f else Found (length ?kept) f) # more"
  proof (cases "field_values records f")
    case Nil
    with fv have "?kept = []" by simp
    with Nil show ?thesis by (simp add: analyze_jsonb_field_cases(1))
  next
    case (Cons v rest)
    with fv have len: "length ?kept = Suc (length rest)" "?kept \<noteq> []"
      by (auto dest: arg_cong [where f = length])
    show ?thesis
    proof (cases v)
      case (Scalar s)
      with Cons len show ?thesis by (simp add: analyze_jsonb_field_cases(2))
    next
      case (PList xs)
      with Cons len show ?thesis
        by (simp add: analyze_jsonb_field_cases(4) split: sum.splits)
    next
      case (PDict kvs)
      with Cons len show ?thesis by (simp add: analyze_jsonb_field_cases(3))
    qed
  qed
  with fv show ?thesis by simp
qed

text \<open>
  Claim C5, as the code has it. When the first populated value is an object, the keys
  reported are the union of the keys of all the populated values that are objects, in
  sorted order; the per-key lines come from the first populated object alone, each with
  the type name of the value. A string, an integer, a float or a boolean is followed by
  its \<open>str\<close> cut to 50 characters; \<open>None\<close>, a list and a dict are reported by their
  type name alone, the test being \<open>isinstance(val, (str, int, float, bool))\<close>.
\<close>

theorem object_branch:
  assumes "field_values records f = PDict kvs # rest"
  shows "analyze_jsonb_field records f =
           ([Found (Suc (length rest)) f, TypeObject,
             KeysFound (sorted_list_of_set (\<Union> (set (map object_keys (PDict kvs # rest))))),
             SampleStructure] @ map sample_line kvs, None)
    \<and> sample_line (k, Scalar SNone) = FieldType k ''NoneType''
    \<and> sample_line (k, Scalar (SStr t)) = FieldTypeValue k ''str'' (take 50 t)
    \<and> sample_line (k, Scalar (SInt i)) = FieldTypeValue k ''int'' (take 50 (str_int i))
    \<and> sample_line (k, Scalar (SFloat x)) = FieldTypeValue k ''float'' (take 50 (float_str x))
    \<and> sample_line (k, Scalar (SBool b)) =
         FieldTypeValue k ''bool'' (take 50 (if b then ''True'' else ''False''))
    \<and> sample_line (k, PList xs) = FieldType k ''list''
    \<and> sample_line (k, PDict d) = FieldType k ''dict''"
  using assms by (simp add: analyze_jsonb_field_cases(3) all_keys_union)

text \<open>
  Two records whose field \<open>c\<close> is \<open>{"k1": "v1"}\<close> and \<open>{"k1": "v1", "k2": 2}\<close>: both
  keys are reported, and \<open>k1\<close> alone is described, as a string.
\<close>

theorem object_branch_witness:
  "field_values [[(''c'', PDict [(''k1'', Scalar (SStr ''v1''))])],
                 [(''c'', PDict [(''k1'', Scalar (SStr ''v1'')), (''k2'', Scalar (SInt 2))])]] ''c''
     = PDict [(''k1'', Scalar (SStr ''v1''))]
       # [PDict [(''k1'', Scalar (SStr ''v1'')), (''k2'', Scalar (SInt 2))]]
   \<and> analyze_jsonb_field
        [[(''c'', PDict [(''k1'', Scalar (SStr ''v1''))])],
         [(''c'', PDict [(''k1'', Scalar (SStr ''v1'')), (''k2'', Scalar (SInt 2))])]] ''c''
     = ([Found 2 ''c'', TypeObject, KeysFound [''k1'', ''k2''], SampleStructure,
         FieldTypeValue ''k1'' ''str'' ''v1''], None)"
proof -
  let ?recs = "[[(''c'', PDict [(''k1'', Scalar (SStr ''v1''))])],
                [(''c'', PDict [(''k1'', Scalar (SStr ''v1'')), (''k2'', Scalar (SInt 2))])]]"
  let ?fv = "PDict [(''k1'', Scalar (SStr ''v1''))]
       # [PDict [(''k1'', Scalar (SStr ''v1'')), (''k2'', Scalar (SInt 2))]]"
  have h: "field_values ?recs ''c'' = ?fv"
    by (simp add: field_values_def dict_get_def)
  have k: "sorted_list_of_set (\<Union> (set (map object_keys ?fv))) = [''k1'', ''k2'']"
    by code_simp
  from object_branch [OF h] h show ?thesis
    unfolding k by simp
qed

text \<open>
  A null is a scalar, and no value is printed for it: for the one record whose field
  \<open>c\<close> is \<open>{"k": null}\<close> the line of \<open>k\<close> carries the type name \<open>NoneType\<close> and
  nothing else, and no line with a stringified value is printed.
\<close>

theorem object_branch_counterexample:
  "analyze_jsonb_field [[(''c'', PDict [(''k'', Scalar SNone)])]] ''c''
     = ([Found 1 ''c'', TypeObject, KeysFound [''k''], SampleStructure,
         FieldType ''k'' ''NoneType''], None)
   \<and> FieldTypeValue ''k'' ''NoneType'' ''None''
       \<notin> set (fst (analyze_jsonb_field [[(''c'', PDict [(''k'', Scalar SNone)])]] ''c''))"
  by code_simp

text \<open>
  Claim C3, as the code has it. On the records \<open>{"a": 1, "b": []}\<close> and
  \<open>{"a": 2, "b": [{"x": 1}]}\<close> the empty array of the first record is not truthy and
  is left out of the populated set: for the field \<open>b\<close> one populated value is found,
  the array lengths reported are \<open>[1]\<close>, and the element shape is the one key \<open>x\<close> with
  the type name \<open>int\<close>.
\<close>

theorem scenario_b:
  "analyze_jsonb_field
      [[(''a'', Scalar (SInt 1)), (''b'', PList [])],
       [(''a'', Scalar (SInt 2)), (''b'', PList [PDict [(''x'', Scalar (SInt 1))]])]] ''b''
   = ([Found 1 ''b'', TypeArrayOfObjects, ArrayLengths [1], SampleItemStructure,
       ItemField ''x'' ''int''], None)"
  by code_simp

text \<open>The lengths \<open>[0, 1]\<close> are not among the lines printed for that input.\<close>

theorem scenario_b_counterexample:
  "ArrayLengths [0, 1] \<notin> set (fst (analyze_jsonb_field
      [[(''a'', Scalar (SInt 1)), (''b'', PList [])],
       [(''a'', Scalar (SInt 2)), (''b'', PList [PDict [(''x'', Scalar (SInt 1))]])]] ''b''))"
  by code_simp

text \<open>
  Claim C6, as the code has it. When the first populated value is an array whose first
  element is an object, and each of the first five populated values has a length, the
  profiler reports the lengths of the first \<open>min(5, n)\<close> of the \<open>n\<close> populated values in
  input order, then the key and type name of every entry of that first element, and
  nothing from any other element or record. The first populated array is never empty,
  the empty arrays being left out of the populated set.
\<close>

theorem array_branch:
  assumes fv: "field_values records f = PList (PDict kvs # xs) # rest"
    and sz: "list_all sized (take 5 (field_values records f))"
  shows "\<exists>ns. analyze_jsonb_field records f =
             ([Found (Suc (length rest)) f, TypeArrayOfObjects, ArrayLengths ns,
               SampleItemStructure] @ map (\<lambda>(key, val). ItemField key (type_name val)) kvs, None)
           \<and> map py_len (take 5 (field_values records f)) = map Inr ns
           \<and> length ns = min 5 (Suc (length rest))"
proof -
  from array_lengths_sized [OF sz] obtain ns where
    ns: "array_lengths (take 5 (field_values records f)) = Inr ns"
        "map py_len (take 5 (field_values records f)) = map Inr ns"
        "length ns = length (take 5 (field_values records f))"
    by blast
  have il: "map item_line kvs = map (\<lambda>(key, val). ItemField key (type_name val)) kvs"
    by (simp add: item_line_def case_prod_beta)
  from ns(1) fv have "analyze_jsonb_field records f =
             ([Found (Suc (length rest)) f, TypeArrayOfObjects, ArrayLengths ns,
               SampleItemStructure] @ map item_line kvs, None)"
    by (simp add: analyze_jsonb_field_cases(4))
  moreover from ns(3) fv have "length ns = min 5 (Suc (length rest))"
    by (simp add: min_def)
  ultimately show ?thesis using ns(2) il by simp
qed

text \<open>
  Three records: two locations, an empty array, one location. The lengths are those of
  the two populated arrays, and the layout is that of the first location alone.
\<close>

theorem array_branch_witness:
  "field_values
      [[(''loc'', PList [PDict [(''city'', Scalar (SStr ''Oslo'')), (''zip'', Scalar (SInt 150))],
                         PDict [(''city'', Scalar (SStr ''Bergen''))]])],
       [(''loc'', PList [])],
       [(''loc'', PList [PDict [(''country'', Scalar SNone)]])]] ''loc''
     = PList (PDict [(''city'', Scalar (SStr ''Oslo'')), (''zip'', Scalar (SInt 150))]
              # [PDict [(''city'', Scalar (SStr ''Bergen''))]])
       # [PList [PDict [(''country'', Scalar SNone)]]]
   \<and> analyze_jsonb_field
      [[(''loc'', PList [PDict [(''city'', Scalar (SStr ''Oslo'')), (''zip'', Scalar (SInt 150))],
                         PDict [(''city'', Scalar (SStr ''Bergen''))]])],
       [(''loc'', PList [])],
       [(''loc'', PList [PDict [(''country'', Scalar SNone)]])]] ''loc''
     = ([Found 2 ''loc'', TypeArrayOfObjects, ArrayLengths [2, 1], SampleItemStructure,
         ItemField ''city'' ''str'', ItemField ''zip'' ''int''], None)"
proof -
  let ?recs = "[[(''loc'', PList [PDict [(''city'', Scalar (SStr ''Oslo'')), (''zip'', Scalar (SInt 150))],
                         PDict [(''city'', Scalar (SStr ''Bergen''))]])],
       [(''loc'', PList [])],
       [(''loc'', PList [PDict [(''country'', Scalar SNone)]])]]"
  have h: "field_values ?recs ''loc''
     = PList (PDict [(''city'', Scalar (SStr ''Oslo'')), (''zip'', Scalar (SInt 150))]
              # [PDict [(''city'', Scalar (SStr ''Bergen''))]])
       # [PList [PDict [(''country'', Scalar SNone)]]]"
    by (simp add: field_values_def dict_get_def)
  have s: "list_all sized (take 5 (field_values ?recs ''loc''))"
    unfolding h by simp
  from array_branch [OF h s] obtain ns where
    r: "analyze_jsonb_field ?recs ''loc'' =
             ([Found (Suc (length [PList [PDict [(''country'', Scalar SNone)]]])) ''loc'',
               TypeArrayOfObjects, ArrayLengths ns, SampleItemStructure]
              @ map (\<lambda>(key, val). ItemField key (type_name val))
                  [(''city'', Scalar (SStr ''Oslo'')), (''zip'', Scalar (SInt 150))], None)"
    and l: "map py_len (take 5 (field_values ?recs ''loc'')) = map Inr ns"
    by blast
  from l have "ns = [2, 1]"
    unfolding h by auto
  with r h show ?thesis by simp
qed

text \<open>
  Without those conditions the statement fails. An object after an array is measured
  with the arrays: two lengths are reported where one populated value is an array. And
  for an array of numbers no layout is reported: \<open>items\<close> is not a method of \<open>int\<close>.
\<close>

theorem array_branch_counterexample:
  "length (filter is_list (field_values
      [[(''f'', PList [PDict [(''x'', Scalar (SInt 1))]])],
       [(''f'', PDict [(''k'', Scalar (SInt 1))])]] ''f'')) = 1
   \<and> analyze_jsonb_field
      [[(''f'', PList [PDict [(''x'', Scalar (SInt 1))]])],
       [(''f'', PDict [(''k'', Scalar (SInt 1))])]] ''f''
     = ([Found 2 ''f'', TypeArrayOfObjects, ArrayLengths [1, 1], SampleItemStructure,
         ItemField ''x'' ''int''], None)
   \<and> analyze_jsonb_field [[(''f'', PList [Scalar (SInt 1), Scalar (SInt 2)])]] ''f''
     = ([Found 1 ''f'', TypeArrayOfObjects, ArrayLengths [2], SampleItemStructure],
        Some AttributeError)"
  by code_simp

text \<open>
  Claim C9, as the code has it. \<open>analyze_jsonb_field\<close> completes when no value is
  populated, when the first populated value is a scalar (the count of populated
  fields is printed and the shape is passed over in silence) and when it is an object.
  When the first populated value is an array, it completes exactly when each of the
  first five populated values has a length and the first element of that array is an
  object; otherwise it raises.
\<close>

theorem nested_profiler_completion:
  "(field_values records f = [] \<longrightarrow>
      analyze_jsonb_field records f = ([NoPopulated f], None))
   \<and> (field_values records f = Scalar s # rest \<longrightarrow>
      analyze_jsonb_field records f = ([Found (Suc (length rest)) f], None))
   \<and> (field_values records f = PDict kvs # rest \<longrightarrow>
      snd (analyze_jsonb_field records f) = None)
   \<and> (field_values records f = PList xs # rest \<longrightarrow>
      (snd (analyze_jsonb_field records f) = None \<longleftrightarrow>
         list_all sized (take 5 (field_values records f)) \<and> (\<exists>d ys. xs = PDict d # ys)))"
  by (simp add: analyze_jsonb_field_cases(1,2,3) array_branch_outcome)

text \<open>
  One input for each case: a null field, a field of scalars, an object, an array of
  objects, and an array of strings, on which the profiler raises.
\<close>

theorem nested_profiler_completion_witness:
  "analyze_jsonb_field [[(''phase'', Scalar SNone)], [(''id'', Scalar (SInt 4))]] ''phase''
     = ([NoPopulated ''phase''], None)
   \<and> analyze_jsonb_field [[(''phase'', Scalar (SStr ''Phase 2''))], [(''phase'', Scalar (SInt 3))]]
        ''phase''
     = ([Found 2 ''phase''], None)
   \<and> snd (analyze_jsonb_field [[(''c'', PDict [(''email'', PList [])])]] ''c'') = None
   \<and> snd (analyze_jsonb_field [[(''loc'', PList [PDict [(''city'', Scalar (SStr ''Oslo''))]])]]
        ''loc'') = None
   \<and> snd (analyze_jsonb_field [[(''conditions'', PList [Scalar (SStr ''Asthma'')])]]
        ''conditions'') \<noteq> None"
proof -
  have a: "field_values [[(''phase'', Scalar SNone)], [(''id'', Scalar (SInt 4))]] ''phase'' = []"
    by (simp add: field_values_def dict_get_def)
  have b: "field_values [[(''phase'', Scalar (SStr ''Phase 2''))], [(''phase'', Scalar (SInt 3))]]
             ''phase'' = Scalar (SStr ''Phase 2'') # [Scalar (SInt 3)]"
    by (simp add: field_values_def dict_get_def)
  have c: "field_values [[(''c'', PDict [(''email'', PList [])])]] ''c''
             = PDict [(''email'', PList [])] # []"
    by (simp add: field_values_def dict_get_def)
  have d: "field_values [[(''loc'', PList [PDict [(''city'', Scalar (SStr ''Oslo''))]])]] ''loc''
             = PList [PDict [(''city'', Scalar (SStr ''Oslo''))]] # []"
    by (simp add: field_values_def dict_get_def)
  have e: "field_values [[(''conditions'', PList [Scalar (SStr ''Asthma'')])]] ''conditions''
             = PList [Scalar (SStr ''Asthma'')] # []"
    by (simp add: field_values_def dict_get_def)
  note t = nested_profiler_completion
  from t [of "[[(''phase'', Scalar SNone)], [(''id'', Scalar (SInt 4))]]" "''phase''"] a
  have 1: "analyze_jsonb_field [[(''phase'', Scalar SNone)], [(''id'', Scalar (SInt 4))]] ''phase''
     = ([NoPopulated ''phase''], None)"
    by blast
  from t [of "[[(''phase'', Scalar (SStr ''Phase 2''))], [(''phase'', Scalar (SInt 3))]]" "''phase''"
             "SStr ''Phase 2''" "[Scalar (SInt 3)]"] b
  have 2: "analyze_jsonb_field [[(''phase'', Scalar (SStr ''Phase 2''))], [(''phase'', Scalar (SInt 3))]]
        ''phase'' = ([Found 2 ''phase''], None)"
    by simp
  from t [of "[[(''c'', PDict [(''email'', PList [])])]]" "''c''" _ _ "[(''email'', PList [])]" "[]"] c
  have 3: "snd (analyze_jsonb_field [[(''c'', PDict [(''email'', PList [])])]] ''c'') = None"
    by blast
  from t [of "[[(''loc'', PList [PDict [(''city'', Scalar (SStr ''Oslo''))]])]]" "''loc''" _ "[]" _
             "[PDict [(''city'', Scalar (SStr ''Oslo''))]]"] d
  have 4: "snd (analyze_jsonb_field [[(''loc'', PList [PDict [(''city'', Scalar (SStr ''Oslo''))]])]]
        ''loc'') = None"
    by simp
  from t [of "[[(''conditions'', PList [Scalar (SStr ''Asthma'')])]]" "''conditions''" _ "[]" _
             "[Scalar (SStr ''Asthma'')]"] e
  have 5: "snd (analyze_jsonb_field [[(''conditions'', PList [Scalar (SStr ''Asthma'')])]]
        ''conditions'') \<noteq> None"
    by simp
  from 1 2 3 4 5 show ?thesis by blast
qed

text \<open>
  An array of strings, as the column \<open>conditions\<close> holds: the profiler prints four
  lines and raises \<open>AttributeError\<close> at \<open>sample_item.items()\<close>.
\<close>

theorem nested_profiler_completion_counterexample:
  "analyze_jsonb_field [[(''conditions'', PList [Scalar (SStr ''Diabetes'')])]] ''conditions''
     = ([Found 1 ''conditions'', TypeArrayOfObjects, ArrayLengths [1], SampleItemStructure],
        Some AttributeError)"
  by code_simp

section \<open>The two scripts agree\<close>

text \<open>Each function of the second script equals its counterpart in the first.\<close>

lemma sample_text_psycopg_eq: "sample_text_psycopg = sample_text"
proof (rule ext)
  fix v show "sample_text_psycopg v = sample_text v"
    by (cases v) simp_all
qed

lemma scan_step_psycopg_eq: "scan_step_psycopg = scan_step"
  unfolding scan_step_psycopg_def scan_step_def sample_text_psycopg_eq ..

lemma scan_column_psycopg_eq: "scan_column_psycopg = scan_column"
proof (intro ext)
  fix col rs st
  show "scan_column_psycopg col rs st = scan_column col rs st"
    by (induction rs arbitrary: st) (simp_all add: scan_step_psycopg_eq)
qed

lemma column_entry_psycopg_eq: "column_entry_psycopg = column_entry"
  unfolding column_entry_psycopg_def column_entry_def scan_column_psycopg_eq ..

lemma fill_stats_psycopg_eq: "fill_stats_psycopg = fill_stats"
proof (intro ext)
  fix records cols acc
  show "fill_stats_psycopg records cols acc = fill_stats records cols acc"
    by (induction cols arbitrary: acc) (simp_all add: column_entry_psycopg_eq split: sum.splits)
qed

lemma all_columns_psycopg_eq: "all_columns_psycopg = all_columns"
proof (intro ext)
  fix rs acc
  show "all_columns_psycopg rs acc = all_columns rs acc"
    by (induction rs arbitrary: acc) simp_all
qed

lemma field_values_psycopg_eq: "field_values_psycopg = field_values"
  unfolding field_values_psycopg_def field_values_def ..

lemma array_lengths_psycopg_eq: "array_lengths_psycopg = array_lengths"
proof (rule ext)
  fix vs show "array_lengths_psycopg vs = array_lengths vs"
    by (induction vs) (simp_all split: sum.splits)
qed

lemma item_line_psycopg_eq: "item_line_psycopg = item_line"
  unfolding item_line_psycopg_def item_line_def ..

lemma sample_item_loop_psycopg_eq: "sample_item_loop_psycopg = sample_item_loop"
proof (rule ext)
  fix vs show "sample_item_loop_psycopg vs = sample_item_loop vs"
    by (induction vs) (simp_all add: item_line_psycopg_eq split: sum.splits)
qed

lemma all_keys_psycopg_eq: "all_keys_psycopg = all_keys"
proof (intro ext)
  fix vs acc
  show "all_keys_psycopg vs acc = all_keys vs acc"
    by (induction vs acc rule: all_keys.induct) simp_all
qed

lemma sample_line_psycopg_eq: "sample_line_psycopg = sample_line"
proof (rule ext)
  fix kv :: "string \<times> pyval"
  show "sample_line_psycopg kv = sample_line kv"
    by (cases kv rule: sample_line.cases) simp_all
qed

text \<open>
  Claim C10. On every record sequence and field name, \<open>analyze_column_population\<close> of
  \<open>analyze_clinical_trials_psycopg.py\<close> returns what \<open>analyze_column_population\<close> of
  \<open>analyze_clinical_trials.py\<close> returns, and the two \<open>analyze_jsonb_field\<close> print the
  same lines and end the same way.
\<close>

theorem scripts_agree:
  "analyze_column_population_psycopg records = analyze_column_population records
   \<and> analyze_jsonb_field_psycopg records field_name = analyze_jsonb_field records field_name"
  unfolding analyze_column_population_psycopg_def analyze_column_population_def
    analyze_jsonb_field_psycopg_def analyze_jsonb_field_def
    fill_stats_psycopg_eq all_columns_psycopg_eq field_values_psycopg_eq
    array_lengths_psycopg_eq sample_item_loop_psycopg_eq all_keys_psycopg_eq
    sample_line_psycopg_eq
  by (rule conjI; rule refl)

end
